theory Spec2Isabelle
  imports Complex_Main "HOL-Library.Sublist" "HOL-Library.AList" "HOL-Library.Log_Nat"
begin

section \<open>Python values\<close>

text \<open>
  The validator of \<^verbatim>\<open>init_unlock.py\<close> works on the values that
  \<^verbatim>\<open>response.json()\<close> returns: \<^verbatim>\<open>None\<close>, booleans, unbounded integers, floats,
  strings, lists and dictionaries with string keys. A finite float is carried as the rational
  number it denotes; the three special floats are separate constructors. The only float
  operations of the source that the model evaluates are truth tests and comparisons with an
  integer constant, which Python performs exactly.

  A dictionary is an association list read with \<^const>\<open>map_of\<close>.
\<close>

datatype pyfloat = Finite rat | PosInf | NegInf | NaN

datatype pyval =
    PyNone
  | PyBool bool
  | PyInt int
  | PyFloat pyfloat
  | PyStr string
  | PyList "pyval list"
  | PyDict "(string \<times> pyval) list"

text \<open>The exceptions that the category routines can raise; the string is \<^verbatim>\<open>str(e)\<close>.\<close>

datatype exn = AttributeError string | TypeError string

fun exn_str :: "exn \<Rightarrow> string" where
  "exn_str (AttributeError m) = m"
| "exn_str (TypeError m) = m"

fun type_name :: "pyval \<Rightarrow> string" where
  "type_name PyNone = ''NoneType''"
| "type_name (PyBool b) = ''bool''"
| "type_name (PyInt n) = ''int''"
| "type_name (PyFloat f) = ''float''"
| "type_name (PyStr t) = ''str''"
| "type_name (PyList vs) = ''list''"
| "type_name (PyDict kvs) = ''dict''"

text \<open>Python's truth value of an object, as \<^verbatim>\<open>if x\<close>, \<^verbatim>\<open>not x\<close> and \<^verbatim>\<open>and\<close> use it.\<close>

fun truthy :: "pyval \<Rightarrow> bool" where
  "truthy PyNone = False"
| "truthy (PyBool b) = b"
| "truthy (PyInt n) = (n \<noteq> 0)"
| "truthy (PyFloat (Finite q)) = (q \<noteq> 0)"
| "truthy (PyFloat f) = True"
| "truthy (PyStr t) = (t \<noteq> [])"
| "truthy (PyList vs) = (vs \<noteq> [])"
| "truthy (PyDict kvs) = (kvs \<noteq> [])"

text \<open>\<^verbatim>\<open>a and b\<close>: the left operand when it is falsy, the right operand otherwise.\<close>

definition py_and :: "pyval \<Rightarrow> pyval \<Rightarrow> pyval" where
  "py_and a b = (if truthy a then b else a)"

text \<open>
  \<^verbatim>\<open>d.get(key, default)\<close>. Only a dictionary has the method: on every other value
  the attribute lookup raises \<^verbatim>\<open>AttributeError\<close>.
\<close>

fun py_get :: "pyval \<Rightarrow> string \<Rightarrow> pyval \<Rightarrow> exn + pyval" where
  "py_get (PyDict kvs) k dflt =
     Inr (case map_of kvs k of Some v \<Rightarrow> v | None \<Rightarrow> dflt)"
| "py_get v k dflt =
     Inl (AttributeError ([CHR 0x27] @ type_name v @ [CHR 0x27] @ '' object has no attribute ''
            @ [CHR 0x27] @ ''get'' @ [CHR 0x27]))"

text \<open>
  \<^verbatim>\<open>x > n\<close> for an integer constant \<^verbatim>\<open>n\<close>. Booleans compare as 0 and 1, a NaN is
  greater than nothing, and a value that is not a number raises \<^verbatim>\<open>TypeError\<close>.
\<close>

fun py_gt :: "pyval \<Rightarrow> int \<Rightarrow> exn + bool" where
  "py_gt (PyBool b) n = Inr ((if b then 1 else 0) > n)"
| "py_gt (PyInt i) n = Inr (i > n)"
| "py_gt (PyFloat (Finite q)) n = Inr (q > of_int n)"
| "py_gt (PyFloat PosInf) n = Inr True"
| "py_gt (PyFloat NegInf) n = Inr False"
| "py_gt (PyFloat NaN) n = Inr False"
| "py_gt v n =
     Inl (TypeError ([CHR 0x27] @ ''>'' @ [CHR 0x27] @ '' not supported between instances of ''
            @ [CHR 0x27] @ type_name v @ [CHR 0x27] @ '' and '' @ [CHR 0x27] @ ''int'' @ [CHR 0x27]))"

text \<open>
  \<^verbatim>\<open>fp in c\<close> for a string \<^verbatim>\<open>fp\<close>: a substring test on a string, a membership test
  on a list, a key test on a dictionary, and \<^verbatim>\<open>TypeError\<close> on a value that is no container.
\<close>

fun py_in :: "string \<Rightarrow> pyval \<Rightarrow> exn + bool" where
  "py_in fp (PyStr t) = Inr (sublist fp t)"
| "py_in fp (PyList vs) = Inr (PyStr fp \<in> set vs)"
| "py_in fp (PyDict kvs) = Inr (fp \<in> set (map fst kvs))"
| "py_in fp v =
     Inl (TypeError (''argument of type '' @ [CHR 0x27] @ type_name v @ [CHR 0x27]
            @ '' is not iterable''))"

text \<open>
  \<^verbatim>\<open>any(fp in c for fp in fps)\<close>: the generator is consumed from the left, stops at the
  first hit, and an exception of a membership test leaves the whole expression.
\<close>

fun py_any_in :: "string list \<Rightarrow> pyval \<Rightarrow> exn + bool" where
  "py_any_in [] c = Inr False"
| "py_any_in (fp # fps) c =
     (case py_in fp c of
        Inl ex \<Rightarrow> Inl ex
      | Inr hit \<Rightarrow> if hit then Inr True else py_any_in fps c)"

text \<open>\<^verbatim>\<open>len(x)\<close>: defined on strings, lists and dictionaries.\<close>

fun py_len :: "pyval \<Rightarrow> exn + nat" where
  "py_len (PyStr t) = Inr (length t)"
| "py_len (PyList vs) = Inr (length vs)"
| "py_len (PyDict kvs) = Inr (length (remdups (map fst kvs)))"
| "py_len v =
     Inl (TypeError (''object of type '' @ [CHR 0x27] @ type_name v @ [CHR 0x27]
            @ '' has no len()''))"

section \<open>The environment: server, clock, formatting\<close>

text \<open>
  \<^verbatim>\<open>requests.get(url, timeout=5)\<close> either raises (timeout, refused connection, DNS
  failure, malformed URL: \<open>Raise\<close> with the exception's text) or returns a response. Of a
  response the source reads \<^verbatim>\<open>status_code\<close> and calls \<^verbatim>\<open>json()\<close>, which returns the
  parsed body or raises when the body is not JSON (\<open>Inl\<close> with the exception's text).
  The server is a fixed assignment of outcomes to URLs.

  \<^verbatim>\<open>time.time()\<close> is a clock read by a counter of the calls made so far. \<open>py_str\<close> is
  Python's \<^verbatim>\<open>str()\<close>, as the f-strings of the source apply it.
\<close>

record response =
  resp_status :: int
  resp_json :: "string + pyval"

datatype get_outcome = Raise string | Respond response

record env =
  http_get :: "string \<Rightarrow> get_outcome"
  now :: "nat \<Rightarrow> rat"
  py_str :: "pyval \<Rightarrow> string"

section \<open>The validator\<close>

record test_result =
  test :: string
  status :: string
  passed :: pyval
  details :: string
  timestamp :: rat

text \<open>
  The object state of \<^verbatim>\<open>NEXUSUnlockValidator\<close>, and with it the number of clock
  readings taken so far.
\<close>

record validator =
  base_url :: string
  test_results :: "test_result list"
  fingerprint_lock :: string
  clock_reads :: nat

definition NEXUSUnlockValidator :: "string \<Rightarrow> validator" where
  "NEXUSUnlockValidator url =
     \<lparr>base_url = url, test_results = [], fingerprint_lock = ''WATSON_COMMAND_READY'',
      clock_reads = 0\<rparr>"

definition default_base_url :: string where
  "default_base_url = ''http://localhost:5000''"

text \<open>The two status markers: a check mark or a ballot cross (UTF-8), then the word.\<close>

definition status_pass :: string where
  "status_pass = [CHR 0xE2, CHR 0x9C, CHR 0x93] @ '' PASS''"

definition status_fail :: string where
  "status_fail = [CHR 0xE2, CHR 0x9C, CHR 0x97] @ '' FAIL''"

text \<open>
  \<^verbatim>\<open>log_test\<close> appends one entry; \<^verbatim>\<open>passed\<close> is stored as it was given. Console
  output is not part of the model.
\<close>

definition log_test :: "env \<Rightarrow> string \<Rightarrow> pyval \<Rightarrow> string \<Rightarrow> validator \<Rightarrow> validator" where
  "log_test e test_name passed_arg details_arg s =
     s\<lparr>test_results := test_results s @
          [\<lparr>test = test_name,
            status = (if truthy passed_arg then status_pass else status_fail),
            passed = passed_arg,
            details = details_arg,
            timestamp = now e (clock_reads s)\<rparr>],
       clock_reads := Suc (clock_reads s)\<rparr>"

text \<open>The dictionary that \<^verbatim>\<open>test_api_endpoint\<close> returns; an absent key is \<open>None\<close>.\<close>

record endpoint_check =
  success :: bool
  status_code :: "int option"
  data :: pyval
  error :: "string option"

text \<open>
  \<^verbatim>\<open>test_api_endpoint\<close>: the whole body is inside \<^verbatim>\<open>try\<close>, so an exception of the
  request and an exception of \<^verbatim>\<open>response.json()\<close> both end in the handler.
\<close>

definition test_api_endpoint :: "env \<Rightarrow> validator \<Rightarrow> string \<Rightarrow> int \<Rightarrow> endpoint_check" where
  "test_api_endpoint e s endpoint expected_status =
     (case http_get e (base_url s @ endpoint) of
        Raise msg \<Rightarrow> \<lparr>success = False, status_code = None, data = PyNone, error = Some msg\<rparr>
      | Respond r \<Rightarrow>
          if resp_status r = 200 then
            (case resp_json r of
               Inl msg \<Rightarrow>
                 \<lparr>success = False, status_code = None, data = PyNone, error = Some msg\<rparr>
             | Inr body \<Rightarrow>
                 \<lparr>success = (resp_status r = expected_status),
                  status_code = Some (resp_status r), data = body, error = None\<rparr>)
          else
            \<lparr>success = (resp_status r = expected_status),
             status_code = Some (resp_status r), data = PyNone, error = None\<rparr>)"

section \<open>The category routines\<close>

text \<open>
  A routine either returns a Python value or leaves with an exception; in both cases the
  entries it has logged so far stay in the validator.
\<close>

type_synonym routine = "validator \<Rightarrow> (exn + pyval) \<times> validator"

definition modules :: "string list" where
  "modules =
     [''/api/dashboard/stats'',
      ''/api/dashboard/activity'',
      ''/api/dashboard/learning-progress'',
      ''/api/quantum/knowledge-graph'',
      ''/api/market/summary'',
      ''/api/market/alerts'',
      ''/api/research/metrics'',
      ''/api/research/targets'',
      ''/api/automation/metrics'',
      ''/api/kaizen/metrics'',
      ''/api/infinity/health'',
      ''/api/infinity/modules'',
      ''/api/watson/state'',
      ''/api/watson/visual-state'']"

text \<open>The \<^verbatim>\<open>for module in modules\<close> loop of \<^verbatim>\<open>validate_dashboard_modules\<close>.\<close>

fun modules_loop :: "env \<Rightarrow> string list \<Rightarrow> nat \<Rightarrow> validator \<Rightarrow> nat \<times> validator" where
  "modules_loop e [] passed_count s = (passed_count, s)"
| "modules_loop e (m # ms) passed_count s =
     (let result = test_api_endpoint e s m 200 in
      if success result then
        modules_loop e ms (passed_count + 1)
          (log_test e (''Module Access: '' @ m) (PyBool True) [] s)
      else
        modules_loop e ms passed_count
          (log_test e (''Module Access: '' @ m) (PyBool False)
             (''Status: '' @ (case status_code result of
                                Some c \<Rightarrow> py_str e (PyInt c)
                              | None \<Rightarrow> ''Error'')) s))"

text \<open>
  The ratio \<^verbatim>\<open>passed_count / len(modules)\<close> and the bound \<^verbatim>\<open>0.8\<close> are taken as exact
  rationals.
\<close>

definition validate_dashboard_modules :: "env \<Rightarrow> routine" where
  "validate_dashboard_modules e s =
     (let (passed_count, s1) = modules_loop e modules 0 s;
          success_rate = (of_nat passed_count :: rat) / of_nat (length modules);
          s2 = log_test e ''Dashboard Module Access'' (PyBool (success_rate \<ge> 8 / 10))
                 (py_str e (PyInt (int passed_count)) @ ''/''
                    @ py_str e (PyInt (int (length modules))) @ '' modules accessible'') s1
      in (Inr (PyBool (success_rate \<ge> 8 / 10)), s2))"

definition validate_watson_command_engine :: "env \<Rightarrow> routine" where
  "validate_watson_command_engine e s =
     (let state_result = test_api_endpoint e s ''/api/watson/state'' 200 in
      if \<not> success state_result then
        (Inr (PyBool False),
         log_test e ''Watson State Access'' (PyBool False) ''Cannot access Watson state'' s)
      else
        (let state_data = data state_result in
         (case py_get state_data ''isMemoryAware'' (PyBool False) of
            Inl ex \<Rightarrow> (Inl ex, s)
          | Inr memory_aware \<Rightarrow>
             (let s1 = log_test e ''Watson Memory Awareness'' memory_aware
                         (''Memory aware: '' @ py_str e memory_aware) s in
              (case py_get state_data ''fingerprintLock'' (PyStr []) of
                 Inl ex \<Rightarrow> (Inl ex, s1)
               | Inr fingerprint \<Rightarrow>
                  (let expected_fingerprints =
                         [fingerprint_lock s1, ''WATSON_FINAL_INFINITY_PATCH_2025_06_05''] in
                   (case py_any_in expected_fingerprints fingerprint of
                      Inl ex \<Rightarrow> (Inl ex, s1)
                    | Inr fingerprint_match \<Rightarrow>
                       (let s2 = log_test e ''Watson Fingerprint Lock'' (PyBool fingerprint_match)
                                   (''System fingerprint: '' @ py_str e fingerprint) s1;
                            visual_result =
                              test_api_endpoint e s2 ''/api/watson/visual-state'' 200;
                            visual_accessible = success visual_result;
                            s3 = log_test e ''Watson Visual State''
                                   (PyBool visual_accessible) [] s2;
                            history_result = test_api_endpoint e s3 ''/api/watson/history'' 200;
                            history_accessible = success history_result;
                            s4 = log_test e ''Watson Command History''
                                   (PyBool history_accessible) [] s3
                        in (Inr (py_and memory_aware
                                  (py_and (PyBool fingerprint_match)
                                    (py_and (PyBool visual_accessible)
                                      (PyBool history_accessible)))),
                            s4)))))))))"

definition validate_kaizen_agent :: "env \<Rightarrow> routine" where
  "validate_kaizen_agent e s =
     (let metrics_result = test_api_endpoint e s ''/api/kaizen/metrics'' 200 in
      if \<not> success metrics_result then
        (Inr (PyBool False),
         log_test e ''Kaizen Metrics Access'' (PyBool False) ''Cannot access Kaizen metrics'' s)
      else
        (let metrics_data = data metrics_result in
         (case py_get metrics_data ''isActive'' (PyBool False) of
            Inl ex \<Rightarrow> (Inl ex, s)
          | Inr is_active \<Rightarrow>
             (let s1 = log_test e ''Kaizen Agent Active'' is_active [] s in
              (case py_get metrics_data ''optimizationCycles'' (PyInt 0) of
                 Inl ex \<Rightarrow> (Inl ex, s1)
               | Inr cycles \<Rightarrow>
                  (case py_gt cycles 0 of
                     Inl ex \<Rightarrow> (Inl ex, s1)
                   | Inr cycles_running \<Rightarrow>
                      (let s2 = log_test e ''Kaizen Optimization Cycles'' (PyBool cycles_running)
                                  (''Cycles completed: '' @ py_str e cycles) s1 in
                       (case py_get metrics_data ''currentEfficiency'' (PyInt 0) of
                          Inl ex \<Rightarrow> (Inl ex, s2)
                        | Inr efficiency \<Rightarrow>
                           (case py_gt efficiency 90 of
                              Inl ex \<Rightarrow> (Inl ex, s2)
                            | Inr good_efficiency \<Rightarrow>
                               (let s3 = log_test e ''Kaizen System Efficiency''
                                           (PyBool good_efficiency)
                                           (''Efficiency: '' @ py_str e efficiency @ ''%'') s2
                                in (Inr (py_and is_active
                                          (py_and (PyBool cycles_running)
                                            (PyBool good_efficiency))),
                                    s3)))))))))))"

text \<open>
  \<^verbatim>\<open>x in ["excellent", "good"]\<close> compares \<^verbatim>\<open>x\<close> with each element and never raises.
\<close>

definition validate_infinity_sovereign :: "env \<Rightarrow> routine" where
  "validate_infinity_sovereign e s =
     (let health_result = test_api_endpoint e s ''/api/infinity/health'' 200;
          modules_result = test_api_endpoint e s ''/api/infinity/modules'' 200;
          health_accessible = success health_result;
          modules_accessible = success modules_result;
          s1 = log_test e ''Infinity Health Access'' (PyBool health_accessible) [] s;
          s2 = log_test e ''Infinity Modules Access'' (PyBool modules_accessible) [] s1
      in
      if health_accessible \<and> truthy (data health_result) then
        (let health_data = data health_result in
         (case py_get health_data ''overallHealth'' (PyInt 0) of
            Inl ex \<Rightarrow> (Inl ex, s2)
          | Inr overall_health \<Rightarrow>
             (case py_gt overall_health 90 of
                Inl ex \<Rightarrow> (Inl ex, s2)
              | Inr good_health \<Rightarrow>
                 (let s3 = log_test e ''System Health Status'' (PyBool good_health)
                             (''Health: '' @ py_str e overall_health @ ''%'') s2 in
                  (case py_get health_data ''securityStatus'' (PyStr ''unknown'') of
                     Inl ex \<Rightarrow> (Inl ex, s3)
                   | Inr security_status \<Rightarrow>
                      (let good_security =
                             (security_status = PyStr ''excellent''
                                \<or> security_status = PyStr ''good'');
                           s4 = log_test e ''Security Status'' (PyBool good_security)
                                  (''Security: '' @ py_str e security_status) s3
                       in (Inr (PyBool (good_health \<and> good_security)), s4)))))))
      else (Inr (PyBool (health_accessible \<and> modules_accessible)), s2))"

definition validate_market_intelligence :: "env \<Rightarrow> routine" where
  "validate_market_intelligence e s =
     (let summary_result = test_api_endpoint e s ''/api/market/summary'' 200;
          alerts_result = test_api_endpoint e s ''/api/market/alerts'' 200;
          summary_accessible = success summary_result;
          alerts_accessible = success alerts_result;
          s1 = log_test e ''Market Summary Access'' (PyBool summary_accessible) [] s;
          s2 = log_test e ''Market Alerts Access'' (PyBool alerts_accessible) [] s1
      in
      if summary_accessible \<and> truthy (data summary_result) then
        (let summary_data = data summary_result in
         (case py_get summary_data ''totalDataPoints'' (PyInt 0) of
            Inl ex \<Rightarrow> (Inl ex, s2)
          | Inr data_points \<Rightarrow>
             (case py_get summary_data ''activeSources'' (PyList []) of
                Inl ex \<Rightarrow> (Inl ex, s2)
              | Inr sources \<Rightarrow>
                 (case py_len sources of
                    Inl ex \<Rightarrow> (Inl ex, s2)
                  | Inr active_sources \<Rightarrow>
                     (case py_gt data_points 0 of
                        Inl ex \<Rightarrow> (Inl ex, s2)
                      | Inr has_data \<Rightarrow>
                         (let has_sources = (active_sources > 0);
                              s3 = log_test e ''Market Data Collection'' (PyBool has_data)
                                     (''Data points: '' @ py_str e data_points) s2;
                              s4 = log_test e ''Market Data Sources'' (PyBool has_sources)
                                     (''Active sources: ''
                                        @ py_str e (PyInt (int active_sources))) s3
                          in (Inr (PyBool (has_data \<and> has_sources)), s4)))))))
      else (Inr (PyBool (summary_accessible \<and> alerts_accessible)), s2))"

definition validate_ui_readiness :: "env \<Rightarrow> routine" where
  "validate_ui_readiness e s =
     (let dashboard_result = test_api_endpoint e s ''/'' 200;
          dashboard_accessible = success dashboard_result;
          s1 = log_test e ''Dashboard UI Access'' (PyBool dashboard_accessible) [] s;
          websocket_configured = True;
          s2 = log_test e ''WebSocket Configuration'' (PyBool websocket_configured) [] s1
      in (Inr (PyBool (dashboard_accessible \<and> websocket_configured)), s2))"

section \<open>The orchestrator\<close>

text \<open>
  The \<^verbatim>\<open>for test_name, test_func in tests\<close> loop of \<^verbatim>\<open>run_comprehensive_validation\<close>,
  over any list of named routines. \<open>results\<close> is the dictionary of category outcomes in
  insertion order; \<^const>\<open>AList.update\<close> replaces the value of a key in place and appends
  a new key, as a Python dictionary does.
\<close>

fun run_tests ::
  "env \<Rightarrow> (string \<times> routine) list \<Rightarrow> (string \<times> pyval) list \<Rightarrow> bool \<Rightarrow> validator
     \<Rightarrow> (string \<times> pyval) list \<times> bool \<times> validator" where
  "run_tests e [] results overall_success s = (results, overall_success, s)"
| "run_tests e ((test_name, test_func) # ts) results overall_success s =
     (case test_func s of
        (Inr result, s1) \<Rightarrow>
          run_tests e ts (AList.update test_name result results)
            (if \<not> truthy result then False else overall_success) s1
      | (Inl ex, s1) \<Rightarrow>
          run_tests e ts (AList.update test_name (PyBool False) results) False
            (log_test e (test_name @ '' Exception'') (PyBool False) (exn_str ex) s1))"

subsection \<open>Double-precision arithmetic of the success rate\<close>

text \<open>
  \<^verbatim>\<open>(passed_tests / total_tests) * 100\<close> is computed in IEEE binary64: the true division
  of two integers gives the double nearest to the exact quotient, and the product with
  \<^verbatim>\<open>100\<close> is rounded once more. \<open>to_double\<close> rounds a rational to the nearest double,
  ties to the even significand: 53 significant bits, least exponent \<open>-1022\<close> (below it the
  spacing stays \<open>pow2 (-1074)\<close>), infinity from \<open>pow2 1024\<close> on. The sign of a zero is not
  represented.
\<close>

definition pow2 :: "int \<Rightarrow> rat" where
  "pow2 e = (if 0 \<le> e then 2 ^ nat e else 1 / 2 ^ nat (- e))"

definition round_half_even :: "rat \<Rightarrow> int" where
  "round_half_even x =
     (let f = \<lfloor>x\<rfloor>; d = x - of_int f
      in if d < 1 / 2 then f else if 1 / 2 < d then f + 1 else if even f then f else f + 1)"

text \<open>The exponent \<open>e\<close> with \<open>pow2 e \<le> a < pow2 (e + 1)\<close>, for a positive \<open>a\<close>.\<close>

definition binade :: "rat \<Rightarrow> int" where
  "binade a =
     (if 1 \<le> a then int (floorlog 2 (nat \<lfloor>a\<rfloor>)) - 1
      else - int (floorlog 2 (nat (\<lceil>1 / a\<rceil> - 1))))"

definition to_double :: "rat \<Rightarrow> pyfloat" where
  "to_double q =
     (if q = 0 then Finite 0
      else
        let a = \<bar>q\<bar>;
            e = max (binade a) (- 1022);
            ulp = pow2 (e - 52);
            r = of_int (round_half_even (a / ulp)) * ulp
        in if pow2 1024 \<le> r then (if 0 < q then PosInf else NegInf)
           else Finite (if 0 < q then r else - r))"

text \<open>The product of two floats.\<close>

fun float_mul :: "pyfloat \<Rightarrow> pyfloat \<Rightarrow> pyfloat" where
  "float_mul (Finite a) (Finite b) = to_double (a * b)"
| "float_mul NaN y = NaN"
| "float_mul x NaN = NaN"
| "float_mul (Finite a) PosInf = (if a = 0 then NaN else if 0 < a then PosInf else NegInf)"
| "float_mul (Finite a) NegInf = (if a = 0 then NaN else if 0 < a then NegInf else PosInf)"
| "float_mul PosInf (Finite b) = (if b = 0 then NaN else if 0 < b then PosInf else NegInf)"
| "float_mul NegInf (Finite b) = (if b = 0 then NaN else if 0 < b then NegInf else PosInf)"
| "float_mul PosInf PosInf = PosInf"
| "float_mul PosInf NegInf = NegInf"
| "float_mul NegInf PosInf = NegInf"
| "float_mul NegInf NegInf = PosInf"

text \<open>
  \<^verbatim>\<open>p / t\<close> on two non-negative integers with \<^verbatim>\<open>t > 0\<close>. (Python raises
  \<^verbatim>\<open>ZeroDivisionError\<close> for \<^verbatim>\<open>t = 0\<close>, which the caller excludes, and \<^verbatim>\<open>OverflowError\<close>
  for a quotient beyond the doubles, which a quotient of at most 1 is not.)
\<close>

definition int_truediv :: "nat \<Rightarrow> nat \<Rightarrow> pyfloat" where
  "int_truediv p t = to_double (of_nat p / of_nat t)"

record report =
  overall_success :: bool
  success_rate :: pyval
  passed_tests :: nat
  total_tests :: nat
  duration :: rat
  results :: "(string \<times> pyval) list"
  test_details :: "test_result list"
  fingerprint_validated :: string

text \<open>
  The report of \<^verbatim>\<open>run_comprehensive_validation\<close> (from \<^verbatim>\<open>passed_tests = ...\<close> to the
  \<^verbatim>\<open>return\<close>), as a function of the loop's outcome, the duration and the validator.
  The rate is the float \<^verbatim>\<open>(passed_tests / total_tests) * 100\<close>, or the integer \<^verbatim>\<open>0\<close>
  when there is no entry.
\<close>

definition final_report ::
  "bool \<Rightarrow> (string \<times> pyval) list \<Rightarrow> rat \<Rightarrow> validator \<Rightarrow> report" where
  "final_report overall res dur s =
     (let passed_count = length (filter (\<lambda>r. truthy (passed r)) (test_results s));
          total = length (test_results s);
          rate = (if total > 0
                  then PyFloat (float_mul (int_truediv passed_count total) (Finite 100))
                  else PyInt 0)
      in \<lparr>overall_success = overall, success_rate = rate, passed_tests = passed_count,
          total_tests = total, duration = dur, results = res,
          test_details = test_results s, fingerprint_validated = fingerprint_lock s\<rparr>)"

text \<open>\<^verbatim>\<open>run_comprehensive_validation\<close> with the list of routines as a parameter.\<close>

definition run_validation ::
  "env \<Rightarrow> (string \<times> routine) list \<Rightarrow> validator \<Rightarrow> report \<times> validator" where
  "run_validation e tests s =
     (let start_time = now e (clock_reads s);
          s0 = s\<lparr>clock_reads := Suc (clock_reads s)\<rparr>;
          (res, overall, s1) = run_tests e tests [] True s0;
          end_time = now e (clock_reads s1);
          s2 = s1\<lparr>clock_reads := Suc (clock_reads s1)\<rparr>
      in (final_report overall res (end_time - start_time) s2, s2))"

definition tests :: "env \<Rightarrow> (string \<times> routine) list" where
  "tests e =
     [(''Dashboard Modules'', validate_dashboard_modules e),
      (''Watson Command Engine'', validate_watson_command_engine e),
      (''KaizenGPT Agent'', validate_kaizen_agent e),
      (''Infinity Sovereign'', validate_infinity_sovereign e),
      (''Market Intelligence'', validate_market_intelligence e),
      (''UI Readiness'', validate_ui_readiness e)]"

definition run_comprehensive_validation :: "env \<Rightarrow> validator \<Rightarrow> report \<times> validator" where
  "run_comprehensive_validation e s = run_validation e (tests e) s"

section \<open>Vocabulary of the properties\<close>

text \<open>The server answers the GET of an endpoint with status 200, whatever the body.\<close>

definition responds_200 :: "env \<Rightarrow> validator \<Rightarrow> string \<Rightarrow> bool" where
  "responds_200 e s endpoint =
     (case http_get e (base_url s @ endpoint) of
        Raise msg \<Rightarrow> False
      | Respond r \<Rightarrow> resp_status r = 200)"

text \<open>The server answers with status 200 and a body that \<^verbatim>\<open>json()\<close> parses.\<close>

definition json_200 :: "env \<Rightarrow> validator \<Rightarrow> string \<Rightarrow> bool" where
  "json_200 e s endpoint =
     (case http_get e (base_url s @ endpoint) of
        Raise msg \<Rightarrow> False
      | Respond r \<Rightarrow>
          resp_status r = 200 \<and> (case resp_json r of Inl msg \<Rightarrow> False | Inr body \<Rightarrow> True))"

text \<open>
  A reported fingerprint is accepted when it contains the validator's own fingerprint or
  the second literal of \<^verbatim>\<open>expected_fingerprints\<close>.
\<close>

definition accepted_fingerprint :: "validator \<Rightarrow> string \<Rightarrow> bool" where
  "accepted_fingerprint s t =
     (sublist (fingerprint_lock s) t \<or> sublist ''WATSON_FINAL_INFINITY_PATCH_2025_06_05'' t)"

text \<open>The sub-checks (name and outcome) that were logged between two validator states.\<close>

definition logged_since :: "validator \<Rightarrow> validator \<Rightarrow> (string \<times> pyval) list" where
  "logged_since s s' =
     map (\<lambda>r. (test r, passed r)) (drop (length (test_results s)) (test_results s'))"



text \<open>
  The orchestration as the specification words it, for comparison with \<^const>\<open>run_tests\<close>:
  a category that raises counts as \<^verbatim>\<open>False\<close> and leaves one failing entry with the
  exception's text; every category of the list is run, in order, on the validator the
  previous one left.
\<close>

definition catch_category :: "env \<Rightarrow> string \<Rightarrow> routine \<Rightarrow> validator \<Rightarrow> pyval \<times> validator" where
  "catch_category e test_name test_func s =
     (case test_func s of
        (Inr result, s1) \<Rightarrow> (result, s1)
      | (Inl ex, s1) \<Rightarrow>
          (PyBool False,
           s1\<lparr>test_results := test_results s1 @
                 [\<lparr>test = test_name @ '' Exception'', status = status_fail,
                   passed = PyBool False, details = exn_str ex,
                   timestamp = now e (clock_reads s1)\<rparr>],
              clock_reads := Suc (clock_reads s1)\<rparr>))"

fun all_categories ::
  "env \<Rightarrow> (string \<times> routine) list \<Rightarrow> validator \<Rightarrow> pyval list \<times> validator" where
  "all_categories e [] s = ([], s)"
| "all_categories e ((test_name, test_func) # ts) s =
     (let (r, s1) = catch_category e test_name test_func s;
          (rs, s2) = all_categories e ts s1
      in (r # rs, s2))"

section \<open>Mock servers\<close>

text \<open>
  Concrete environments on which the theorems are instantiated. The clock counts its
  readings; the formatter prints a value's type name only, and no property depends on it.
\<close>

definition mock_str :: "pyval \<Rightarrow> string" where
  "mock_str v = type_name v"

definition mock_env :: "(string \<Rightarrow> get_outcome) \<Rightarrow> env" where
  "mock_env srv = \<lparr>http_get = srv, now = (\<lambda>n. of_nat n), py_str = mock_str\<rparr>"


definition json_ok :: "pyval \<Rightarrow> get_outcome" where
  "json_ok body = Respond \<lparr>resp_status = 200, resp_json = Inr body\<rparr>"

definition not_json :: get_outcome where
  "not_json =
     Respond \<lparr>resp_status = 200, resp_json = Inl ''Expecting value: line 1 column 1 (char 0)''\<rparr>"

definition server_error :: get_outcome where
  "server_error =
     Respond \<lparr>resp_status = 500, resp_json = Inl ''Expecting value: line 1 column 1 (char 0)''\<rparr>"

definition watson_state_body :: pyval where
  "watson_state_body =
     PyDict [(''isMemoryAware'', PyBool True),
             (''fingerprintLock'', PyStr ''WATSON_COMMAND_READY'')]"

definition kaizen_body :: "int \<Rightarrow> pyval" where
  "kaizen_body efficiency =
     PyDict [(''isActive'', PyBool True), (''optimizationCycles'', PyInt 5),
             (''currentEfficiency'', PyInt efficiency)]"

definition market_summary_body :: pyval where
  "market_summary_body =
     PyDict [(''totalDataPoints'', PyInt 1200), (''activeSources'', PyList [PyStr ''nyse''])]"

text \<open>A server on which every check of the validator passes.\<close>

definition srv_healthy :: "string \<Rightarrow> get_outcome" where
  "srv_healthy url =
     (if url = ''http://localhost:5000/api/watson/state'' then json_ok watson_state_body
      else if url = ''http://localhost:5000/api/kaizen/metrics'' then json_ok (kaizen_body 95)
      else if url = ''http://localhost:5000/api/infinity/health'' then
        json_ok (PyDict [(''overallHealth'', PyInt 98), (''securityStatus'', PyStr ''good'')])
      else if url = ''http://localhost:5000/api/market/summary'' then json_ok market_summary_body
      else json_ok (PyDict [(''ok'', PyBool True)]))"

text \<open>A server that answers every request with status 200 and a page that is not JSON.\<close>

definition srv_pages :: "string \<Rightarrow> get_outcome" where
  "srv_pages url = not_json"

text \<open>No server at all: every request fails in the transport.\<close>

definition srv_down :: "string \<Rightarrow> get_outcome" where
  "srv_down url = Raise ''Connection refused''"

text \<open>The healthy server with the outcome of one endpoint replaced.\<close>

definition srv_with :: "string \<Rightarrow> get_outcome \<Rightarrow> string \<Rightarrow> get_outcome" where
  "srv_with endpoint outcome = srv_healthy(''http://localhost:5000'' @ endpoint := outcome)"


definition fresh :: validator where
  "fresh = NEXUSUnlockValidator default_base_url"

section \<open>Basic facts\<close>

lemma log_test_fields [simp]:
  "base_url (log_test e n p d s) = base_url s"
  "fingerprint_lock (log_test e n p d s) = fingerprint_lock s"
  "clock_reads (log_test e n p d s) = Suc (clock_reads s)"
  "test_results (log_test e n p d s) = test_results s @
     [\<lparr>test = n, status = (if truthy p then status_pass else status_fail), passed = p,
       details = d, timestamp = now e (clock_reads s)\<rparr>]"
  by (simp_all add: log_test_def)

lemma test_api_endpoint_log [simp]:
  "test_api_endpoint e (log_test e' n p d s) ep x = test_api_endpoint e s ep x"
  by (simp add: test_api_endpoint_def)

lemma json_200_log [simp]: "json_200 e (log_test e' n p d s) ep = json_200 e s ep"
  by (simp add: json_200_def)

lemma success_200: "success (test_api_endpoint e s ep 200) = json_200 e s ep"
  by (simp add: test_api_endpoint_def json_200_def split: get_outcome.splits sum.splits)

lemma endpoint_json_ok:
  "http_get e (base_url s @ ep) = json_ok body \<Longrightarrow>
   test_api_endpoint e s ep 200 =
     \<lparr>success = True, status_code = Some 200, data = body, error = None\<rparr>"
  by (simp add: test_api_endpoint_def json_ok_def)

lemma fresh_fields [simp]:
  "base_url fresh = ''http://localhost:5000''"
  "fingerprint_lock fresh = ''WATSON_COMMAND_READY''"
  "test_results fresh = []"
  "clock_reads fresh = 0"
  by (simp_all add: fresh_def NEXUSUnlockValidator_def default_base_url_def)

lemmas mock_simps = mock_env_def srv_with_def srv_healthy_def json_ok_def not_json_def
  server_error_def watson_state_body_def kaizen_body_def market_summary_body_def


subsection \<open>The module sweep counts the endpoints that succeed\<close>

lemma modules_loop_count:
  "fst (modules_loop e ms k s) =
     k + length (filter (\<lambda>m. success (test_api_endpoint e s m 200)) ms)"
proof (induction ms arbitrary: k s)
  case Nil
  show ?case by simp
next
  case (Cons m ms)
  show ?case by (simp add: Let_def Cons.IH)
qed

lemma ratio_threshold: "((of_nat k :: rat) / 14 \<ge> 8 / 10) = (12 \<le> k)"
proof -
  have "((of_nat k :: rat) / 14 \<ge> 8 / 10) = ((of_nat k :: rat) * 10 \<ge> 8 * 14)"
    by (simp add: field_simps)
  also have "\<dots> = ((of_nat (k * 10) :: rat) \<ge> of_nat 112)" by simp
  also have "\<dots> = (112 \<le> k * 10)" by (simp only: of_nat_le_iff)
  also have "\<dots> = (12 \<le> k)" by arith
  finally show ?thesis .
qed

lemma length_modules: "length modules = 14"
  by (simp add: modules_def)

lemma rate_threshold:
  "((of_nat k :: rat) / of_nat (length modules) \<ge> 8 / 10) = (12 \<le> k)"
  by (simp only: length_modules of_nat_numeral ratio_threshold)

subsection \<open>The two routines that read fields, on a body with fields of the expected types\<close>

lemma watson_typed:
  assumes st: "http_get e (base_url s @ ''/api/watson/state'') = json_ok (PyDict kvs)"
    and m: "map_of kvs ''isMemoryAware'' = map_option PyBool mem"
    and f: "map_of kvs ''fingerprintLock'' = map_option PyStr fp"
  shows "fst (validate_watson_command_engine e s) =
      Inr (PyBool (mem = Some True \<and>
                   accepted_fingerprint s (case fp of Some t \<Rightarrow> t | None \<Rightarrow> []) \<and>
                   json_200 e s ''/api/watson/visual-state'' \<and>
                   json_200 e s ''/api/watson/history''))"
    and "logged_since s (snd (validate_watson_command_engine e s)) =
      [(''Watson Memory Awareness'', PyBool (mem = Some True)),
       (''Watson Fingerprint Lock'',
          PyBool (accepted_fingerprint s (case fp of Some t \<Rightarrow> t | None \<Rightarrow> []))),
       (''Watson Visual State'', PyBool (json_200 e s ''/api/watson/visual-state'')),
       (''Watson Command History'', PyBool (json_200 e s ''/api/watson/history''))]"
  using m f
  by (cases mem; cases fp;
      simp add: validate_watson_command_engine_def endpoint_json_ok [OF st] Let_def
        success_200 py_and_def accepted_fingerprint_def logged_since_def)+

lemma kaizen_typed:
  assumes st: "http_get e (base_url s @ ''/api/kaizen/metrics'') = json_ok (PyDict kvs)"
    and a: "map_of kvs ''isActive'' = map_option PyBool act"
    and c: "map_of kvs ''optimizationCycles'' = map_option PyInt cyc"
    and f: "map_of kvs ''currentEfficiency'' = map_option PyInt eff"
  shows "fst (validate_kaizen_agent e s) =
      Inr (PyBool (act = Some True \<and> (case cyc of Some n \<Rightarrow> 0 < n | None \<Rightarrow> False) \<and>
                   (case eff of Some n \<Rightarrow> 90 < n | None \<Rightarrow> False)))"
    and "logged_since s (snd (validate_kaizen_agent e s)) =
      [(''Kaizen Agent Active'', PyBool (act = Some True)),
       (''Kaizen Optimization Cycles'',
          PyBool (case cyc of Some n \<Rightarrow> 0 < n | None \<Rightarrow> False)),
       (''Kaizen System Efficiency'',
          PyBool (case eff of Some n \<Rightarrow> 90 < n | None \<Rightarrow> False))]"
  using a c f
  by (cases act; cases cyc; cases eff;
      simp add: validate_kaizen_agent_def endpoint_json_ok [OF st] Let_def py_and_def
        logged_since_def)+



subsection \<open>The loop of the orchestrator against its specification\<close>

lemma catch_category_log:
  "catch_category e n f s =
     (case f s of
        (Inr result, s1) \<Rightarrow> (result, s1)
      | (Inl ex, s1) \<Rightarrow>
          (PyBool False, log_test e (n @ '' Exception'') (PyBool False) (exn_str ex) s1))"
  by (simp add: catch_category_def log_test_def split: prod.splits sum.splits)

lemma update_fresh_key:
  "n \<notin> set (map fst res) \<Longrightarrow> AList.update n v res = res @ [(n, v)]"
  by (induction res) auto

lemma run_tests_refines:
  "distinct (map fst ts) \<Longrightarrow> set (map fst ts) \<inter> set (map fst res) = {} \<Longrightarrow>
   run_tests e ts res ov s =
     (res @ zip (map fst ts) (fst (all_categories e ts s)),
      ov \<and> list_all truthy (fst (all_categories e ts s)),
      snd (all_categories e ts s))"
proof (induction ts arbitrary: res ov s)
  case Nil
  show ?case by simp
next
  case (Cons t ts)
  obtain n f where t: "t = (n, f)" by (cases t)
  obtain r s1 where fs: "f s = (r, s1)" by (cases "f s")
  from Cons.prems t have d: "distinct (map fst ts)" and nts: "n \<notin> set (map fst ts)"
    and nres: "n \<notin> set (map fst res)" and disj: "set (map fst ts) \<inter> set (map fst res) = {}"
    by auto
  have disj': "set (map fst ts) \<inter> set (map fst (res @ [(n, v)])) = {}" for v
    using disj nts by auto
  show ?case
  proof (cases r)
    case (Inl ex)
    show ?thesis
      using Cons.IH [OF d disj', of "PyBool False"] nres
      by (simp add: t fs Inl catch_category_log update_fresh_key split_beta)
  next
    case (Inr v)
    show ?thesis
      using Cons.IH [OF d disj', of v] nres
      by (simp add: t fs Inr catch_category_log update_fresh_key split_beta)
  qed
qed

lemma length_all_categories: "length (fst (all_categories e ts s)) = length ts"
  by (induction ts arbitrary: s) (auto simp: split_beta)

lemma fst_run_validation:
  "fst (run_validation e ts s) =
     final_report
       (fst (snd (run_tests e ts [] True (s\<lparr>clock_reads := Suc (clock_reads s)\<rparr>))))
       (fst (run_tests e ts [] True (s\<lparr>clock_reads := Suc (clock_reads s)\<rparr>)))
       (now e (clock_reads
                 (snd (snd (run_tests e ts [] True (s\<lparr>clock_reads := Suc (clock_reads s)\<rparr>)))))
          - now e (clock_reads s))
       (snd (run_validation e ts s))"
  by (simp add: run_validation_def Let_def split_beta)

subsection \<open>Clock and formatter do not influence outcomes\<close>















subsection \<open>The two routines that read fields of a truthy body only\<close>







subsection \<open>Counting repeated log entries\<close>

lemma log_many_counts:
  "length (test_results ((log_test e n p d ^^ k) s)) = length (test_results s) + k"
  "length (filter (\<lambda>r. truthy (passed r)) (test_results ((log_test e n p d ^^ k) s))) =
     length (filter (\<lambda>r. truthy (passed r)) (test_results s)) + (if truthy p then k else 0)"
  by (induction k) simp_all

subsection \<open>The rounding is to a nearest double\<close>

lemma pow2_nat: "pow2 (int n) = 2 ^ n"
  by (simp add: pow2_def)

lemma pow2_neg: "pow2 (- int n) = 1 / 2 ^ n"
  by (cases n) (simp_all add: pow2_def nat_add_distrib)

lemma pow2_Suc: "pow2 (e + 1) = 2 * pow2 e"
proof (cases "0 \<le> e")
  case True
  then show ?thesis by (simp add: pow2_def nat_add_distrib)
next
  case False
  then obtain n where n: "e = - int (Suc n)"
    by (metis add.inverse_inverse less_eq_int_code(1) nat_0_le neg_0_le_iff_le nle_le not0_implies_Suc of_nat_0)
  have e1: "e + 1 = - int n" using n by simp
  have a: "pow2 (e + 1) = 1 / 2 ^ n" by (simp only: e1 pow2_neg)
  have b: "pow2 e = 1 / 2 ^ Suc n" by (simp only: n pow2_neg)
  show ?thesis by (simp add: a b)
qed

lemma binade_bounds:
  assumes "0 < a"
  shows "pow2 (binade a) \<le> a \<and> a < pow2 (binade a + 1)"
proof (cases "1 \<le> a")
  case True
  let ?n = "nat \<lfloor>a\<rfloor>"
  have n1: "0 < ?n" using True by linarith
  obtain k where k: "floorlog 2 ?n = Suc k"
    using n1 by (metis compute_floorlog Suc_eq_plus1 one_less_numeral_iff semiring_norm(76))
  from floorlog_bounds [of ?n 2] n1 k
  have lo: "2 ^ k \<le> ?n" and hi: "?n < 2 ^ Suc k" by simp_all
  have "(2::rat) ^ k \<le> of_nat ?n" using lo by (metis of_nat_le_iff of_nat_numeral of_nat_power)
  also have "\<dots> \<le> a" using True by (simp add: of_nat_nat) 
  finally have l: "(2::rat) ^ k \<le> a" .
  have "Suc ?n \<le> 2 ^ Suc k" using hi by simp
  then have "(of_nat (Suc ?n) :: rat) \<le> 2 ^ Suc k"
    by (metis of_nat_le_iff of_nat_numeral of_nat_power)
  moreover have "a < of_nat (Suc ?n)" using True by (simp add: of_nat_nat) linarith
  ultimately have h: "a < 2 ^ Suc k" by linarith
  have b: "binade a = int k" using True k by (simp add: binade_def)
  show ?thesis
    using l h by (simp add: b pow2_Suc pow2_nat)
next
  case False
  then have a1: "a < 1" by simp
  let ?c = "\<lceil>1 / a\<rceil>"
  have r1: "1 < 1 / a" using assms a1 by simp
  have c2: "2 \<le> ?c" using r1 by linarith
  let ?n = "nat (?c - 1)"
  have n1: "0 < ?n" using c2 by simp
  obtain k where k: "floorlog 2 ?n = Suc k"
    using n1 by (metis compute_floorlog Suc_eq_plus1 one_less_numeral_iff semiring_norm(76))
  from floorlog_bounds [of ?n 2] n1 k
  have lo: "2 ^ k \<le> ?n" and hi: "?n < 2 ^ Suc k" by simp_all
  have b: "binade a = - int (Suc k)" using False k by (simp add: binade_def)
  have "Suc ?n \<le> 2 ^ Suc k" using hi by simp
  then have "(of_nat (Suc ?n) :: rat) \<le> 2 ^ Suc k"
    by (metis of_nat_le_iff of_nat_numeral of_nat_power)
  moreover have "1 / a \<le> of_nat (Suc ?n)" using c2 by (simp add: of_nat_nat) linarith
  ultimately have "1 / a \<le> 2 ^ Suc k" by linarith
  then have l: "1 / 2 ^ Suc k \<le> a"
    using assms by (simp add: field_simps)
  have "(2::rat) ^ k \<le> of_nat ?n" using lo by (metis of_nat_le_iff of_nat_numeral of_nat_power)
  moreover have "of_nat ?n < 1 / a" using c2 by (simp add: of_nat_nat) linarith
  ultimately have "2 ^ k < 1 / a" by linarith
  then have h: "a < 1 / 2 ^ k"
    using assms by (simp add: field_simps)
  have e: "binade a + 1 = - int k" using b by simp
  show ?thesis
    using l h unfolding e unfolding b by (simp only: pow2_neg)
qed

lemma pow2_pos: "0 < pow2 e"
  by (simp add: pow2_def)

lemma pow2_mono: "e \<le> e' \<Longrightarrow> pow2 e \<le> pow2 e'"
proof -
  have step: "pow2 e \<le> pow2 (e + int n)" for n
  proof (induction n)
    case 0 show ?case by simp
  next
    case (Suc n)
    have "e + int (Suc n) = (e + int n) + 1" by simp
    then have "pow2 (e + int (Suc n)) = 2 * pow2 (e + int n)"
      by (simp only: pow2_Suc)
    then show ?case using Suc pow2_pos [of "e + int n"] by linarith
  qed
  assume "e \<le> e'"
  then obtain n where "e' = e + int n" by (metis zle_iff_zadd)
  then show ?thesis using step by simp
qed

lemma binade_less:
  assumes "0 < a" "a < pow2 k"
  shows "binade a < k"
proof (rule ccontr)
  assume "\<not> binade a < k"
  then have "pow2 k \<le> pow2 (binade a)" by (simp add: pow2_mono)
  then show False using binade_bounds [OF assms(1)] assms(2) by linarith
qed

lemma round_half_even_near: "\<bar>of_int (round_half_even x) - x\<bar> \<le> 1 / 2"
proof -
  have "of_int \<lfloor>x\<rfloor> \<le> x" "x < of_int \<lfloor>x\<rfloor> + 1" by linarith+
  then show ?thesis
    by (auto simp add: round_half_even_def Let_def)
qed

lemma round_half_even_nonneg: "0 \<le> x \<Longrightarrow> 0 \<le> round_half_even x"
proof -
  assume "0 \<le> x"
  then have "0 \<le> \<lfloor>x\<rfloor>" by simp
  then show ?thesis by (auto simp add: round_half_even_def Let_def)
qed

lemma to_double_near:
  assumes q: "0 < q" and k: "q < pow2 k" and k7: "k \<le> 1023"
  shows "\<exists>r. to_double q = Finite r \<and> 0 \<le> r \<and>
             \<bar>r - q\<bar> \<le> pow2 (max (k - 1) (- 1022) - 52) / 2"
proof -
  define u where "u = pow2 (max (binade q) (- 1022) - 52)"
  define m where "m = round_half_even (q / u)"
  define r where "r = of_int m * u"
  define w where "w = pow2 (max (k - 1) (- 1022) - 52)"
  have b: "binade q \<le> k - 1" using binade_less [OF q k] by simp
  have u0: "0 < u" unfolding u_def by (rule pow2_pos)
  have ule: "u \<le> w" unfolding u_def w_def using b by (intro pow2_mono) simp
  have n1: "\<bar>of_int m - q / u\<bar> \<le> 1 / 2" unfolding m_def by (rule round_half_even_near)
  have eq: "r - q = (of_int m - q / u) * u"
    unfolding r_def using u0 by (simp add: field_simps)
  have "\<bar>r - q\<bar> = \<bar>of_int m - q / u\<bar> * u"
    unfolding eq using u0 by (simp add: abs_mult)
  also have "\<dots> \<le> (1 / 2) * u" using n1 u0 by (intro mult_right_mono) simp_all
  finally have near: "\<bar>r - q\<bar> \<le> u / 2" by simp
  have "0 \<le> q / u" using q u0 by simp
  then have m0: "0 \<le> m" unfolding m_def by (rule round_half_even_nonneg)
  have r0: "0 \<le> r" unfolding r_def using m0 u0 by simp
  have "w \<le> pow2 1023" unfolding w_def using k7 by (intro pow2_mono) simp
  then have u1023: "u \<le> pow2 1023" using ule by linarith
  have q1023: "q < pow2 1023" using k k7 pow2_mono [of k 1023] by linarith
  have rlt: "r < pow2 1023 + pow2 1023" using near u0 u1023 q1023 by linarith
  have "(1023::int) + 1 = 1024" by simp
  then have "pow2 1024 = 2 * pow2 1023" using pow2_Suc [of 1023] by simp
  then have nov: "\<not> pow2 1024 \<le> r" using rlt by linarith
  have "to_double q = Finite r"
    using q nov unfolding r_def m_def u_def by (simp add: to_double_def Let_def)
  moreover have "\<bar>r - q\<bar> \<le> w / 2" using near ule by linarith
  ultimately show ?thesis using r0 unfolding w_def by blast
qed

lemma rate_near:
  assumes "0 < t" "p \<le> t"
  shows "\<exists>x. float_mul (int_truediv p t) (Finite 100) = Finite x \<and>
             \<bar>x - of_nat p / of_nat t * 100\<bar> \<le> 1 / 2 ^ 45"
proof (cases "p = 0")
  case True
  then show ?thesis by (simp add: int_truediv_def to_double_def)
next
  case False
  define q where "q = (of_nat p / of_nat t :: rat)"
  have q0: "0 < q" unfolding q_def using False assms by simp
  have q1: "q \<le> 1" unfolding q_def using assms by simp
  have p1: "pow2 1 = 2" by (simp add: pow2_def)
  have "q < pow2 1" using q1 p1 by linarith
  from to_double_near [OF q0 this]
  obtain r where r: "to_double q = Finite r" "0 \<le> r" "\<bar>r - q\<bar> \<le> pow2 (- 52) / 2"
    by auto
  have p52: "pow2 (- 52) = 1 / 2 ^ 52" by (simp add: pow2_def)
  have h53: "(1 / 2 ^ 52 :: rat) / 2 = 1 / 2 ^ 53" by simp
  have rq: "\<bar>r - q\<bar> \<le> 1 / 2 ^ 53" using r(3) unfolding p52 h53 .
  have c53: "(1 / 2 ^ 53 :: rat) \<le> 1 / 4" by simp
  have rle: "r \<le> 5 / 4" using rq q1 c53 by linarith
  show ?thesis
  proof (cases "r = 0")
    case True
    have "q \<le> 1 / 2 ^ 53" using rq True q0 by linarith
    then have "q * 100 \<le> 100 / 2 ^ 53" by simp
    moreover have "(100 / 2 ^ 53 :: rat) \<le> 1 / 2 ^ 45" by simp
    ultimately have "\<bar>0 - q * 100\<bar> \<le> 1 / 2 ^ 45" using q0 by linarith
    moreover have "float_mul (int_truediv p t) (Finite 100) = Finite 0"
      using True r(1) by (simp add: int_truediv_def q_def [symmetric] to_double_def)
    ultimately show ?thesis unfolding q_def by blast
  next
    case False
    then have rp: "0 < r * 100" using r(2) by simp
    have p7: "pow2 7 = 128" by (simp add: pow2_def)
    have "r * 100 < pow2 7" using rle p7 by linarith
    from to_double_near [OF rp this]
    obtain x where x: "to_double (r * 100) = Finite x" "\<bar>x - r * 100\<bar> \<le> pow2 (- 46) / 2"
      by auto
    have p46: "pow2 (- 46) = 1 / 2 ^ 46" by (simp add: pow2_def)
    have h47: "(1 / 2 ^ 46 :: rat) / 2 = 1 / 2 ^ 47" by simp
    have xr: "\<bar>x - r * 100\<bar> \<le> 1 / 2 ^ 47" using x(2) unfolding p46 h47 .
    define c :: rat where "c = 1 / 2 ^ 53"
    define d :: rat where "d = 1 / 2 ^ 47"
    have rq': "\<bar>r - q\<bar> \<le> c" using rq unfolding c_def .
    have xr': "\<bar>x - r * 100\<bar> \<le> d" using xr unfolding d_def .
    have cd: "100 * c + d \<le> 1 / 2 ^ 45" unfolding c_def d_def by simp
    have "\<bar>x - q * 100\<bar> \<le> 100 * c + d" using rq' xr' by linarith
    then have "\<bar>x - q * 100\<bar> \<le> 1 / 2 ^ 45" using cd by linarith
    moreover have "float_mul (int_truediv p t) (Finite 100) = Finite x"
      using x(1) r(1) by (simp add: int_truediv_def q_def [symmetric])
    ultimately show ?thesis unfolding q_def by blast
  qed
qed

subsection \<open>Evaluating the double-precision rate\<close>

lemma floor_rat_numeral: "\<lfloor>(numeral a :: rat) / numeral b\<rfloor> = numeral a div numeral b"
  by (metis floor_divide_of_int_eq of_int_numeral)

lemma ceiling_rat_numeral:
  "\<lceil>(numeral a :: rat) / numeral b\<rceil> = - (- numeral a div numeral b)"
  by (metis ceiling_def floor_divide_of_int_eq of_int_numeral of_int_minus minus_divide_left)

lemma to_double_steps:
  "0 < q \<Longrightarrow> binade q = b \<Longrightarrow> max b (- 1022) = e \<Longrightarrow> pow2 (e - 52) = u \<Longrightarrow>
   round_half_even (q / u) = m \<Longrightarrow> \<not> pow2 1024 \<le> of_int m * u \<Longrightarrow>
   to_double q = Finite (of_int m * u)"
  by (simp add: to_double_def Let_def)

lemma quotient_14_25: "int_truediv 14 25 = Finite (5044031582654956 / 2 ^ 53)"
proof -
  have "to_double (14 / 25) = Finite (of_int 5044031582654956 * (1 / 2 ^ 53))"
  proof (rule to_double_steps)
    show "(0::rat) < 14 / 25" by simp
    show "binade (14 / 25) = - 1"
      by (simp add: binade_def compute_floorlog ceiling_rat_numeral)
    show "max (- 1) (- 1022) = (- 1 :: int)" by simp
    show "pow2 (- 1 - 52) = 1 / 2 ^ 53" by (simp add: pow2_def)
    show "round_half_even ((14 / 25) / (1 / 2 ^ 53)) = 5044031582654956"
      by (simp add: round_half_even_def Let_def floor_rat_numeral)
    show "\<not> pow2 1024 \<le> of_int 5044031582654956 * (1 / 2 ^ 53)"
      by (simp add: pow2_def)
  qed
  then show ?thesis by (simp add: int_truediv_def)
qed

lemma product_14_25:
  "float_mul (Finite (5044031582654956 / 2 ^ 53)) (Finite 100) =
   Finite (7881299347898369 / 2 ^ 47)"
proof -
  have "to_double (5044031582654956 / 2 ^ 53 * 100) =
        Finite (of_int 7881299347898369 * (1 / 2 ^ 47))"
  proof (rule to_double_steps)
    show "(0::rat) < 5044031582654956 / 2 ^ 53 * 100" by simp
    show "binade (5044031582654956 / 2 ^ 53 * 100) = 5"
      by (simp add: binade_def compute_floorlog floor_rat_numeral)
    show "max 5 (- 1022) = (5 :: int)" by simp
    show "pow2 (5 - 52) = 1 / 2 ^ 47" by (simp add: pow2_def)
    show "round_half_even ((5044031582654956 / 2 ^ 53 * 100) / (1 / 2 ^ 47)) = 7881299347898369"
      by (simp add: round_half_even_def Let_def floor_rat_numeral)
    show "\<not> pow2 1024 \<le> of_int 7881299347898369 * (1 / 2 ^ 47)"
      by (simp add: pow2_def)
  qed
  then show ?thesis by simp
qed

lemma rate_14_25:
  "float_mul (int_truediv 14 25) (Finite 100) = Finite (7881299347898369 / 2 ^ 47)"
  by (simp only: quotient_14_25 product_14_25)

lemma quotient_1_2: "int_truediv 1 2 = Finite (1 / 2)"
proof -
  have "to_double (1 / 2) = Finite (of_int 4503599627370496 * (1 / 2 ^ 53))"
  proof (rule to_double_steps)
    show "(0::rat) < 1 / 2" by simp
    show "binade (1 / 2) = - 1"
      by (simp add: binade_def compute_floorlog)
    show "max (- 1) (- 1022) = (- 1 :: int)" by simp
    show "pow2 (- 1 - 52) = 1 / 2 ^ 53" by (simp add: pow2_def)
    show "round_half_even ((1 / 2) / (1 / 2 ^ 53)) = 4503599627370496"
      by (simp add: round_half_even_def Let_def)
    show "\<not> pow2 1024 \<le> of_int 4503599627370496 * (1 / 2 ^ 53)"
      by (simp add: pow2_def)
  qed
  then show ?thesis by (simp add: int_truediv_def)
qed

lemma product_50: "float_mul (Finite (1 / 2)) (Finite 100) = Finite 50"
proof -
  have "to_double 50 = Finite (of_int 7036874417766400 * (1 / 2 ^ 47))"
  proof (rule to_double_steps)
    show "(0::rat) < 50" by simp
    show "binade 50 = 5"
      by (simp add: binade_def compute_floorlog)
    show "max 5 (- 1022) = (5 :: int)" by simp
    show "pow2 (5 - 52) = 1 / 2 ^ 47" by (simp add: pow2_def)
    show "round_half_even (50 / (1 / 2 ^ 47)) = 7036874417766400"
      by (simp add: round_half_even_def Let_def)
    show "\<not> pow2 1024 \<le> of_int 7036874417766400 * (1 / 2 ^ 47)"
      by (simp add: pow2_def)
  qed
  then show ?thesis by simp
qed

lemma distinct_tests: "distinct (map fst (tests e))"
  by (simp add: tests_def)

lemma length_tests: "length (tests e) = 6"
  by (simp add: tests_def)

lemmas routine_defs = validate_dashboard_modules_def modules_def
  validate_watson_command_engine_def validate_kaizen_agent_def validate_infinity_sovereign_def
  validate_market_intelligence_def validate_ui_readiness_def test_api_endpoint_def py_and_def

section \<open>The endpoint check\<close>

text \<open>
  Claim C1, as the code has it. \<^const>\<open>test_api_endpoint\<close> always returns a result (its
  type has no exception), and the result is one of four:
  \<^item> the request raises: \<open>success = False\<close>, the exception's text in \<open>error\<close>, \<open>data\<close> is
    \<^verbatim>\<open>None\<close>, no \<open>status_code\<close>;
  \<^item> a response with a status other than 200: \<open>success\<close> tells whether the status is the
    expected one, \<open>data\<close> is \<^verbatim>\<open>None\<close>;
  \<^item> a response with status 200 and a body that parses: \<open>success\<close> tells whether 200 is the
    expected status, \<open>data\<close> is the parsed body;
  \<^item> a response with status 200 and a body that does not parse: the exception of
    \<^verbatim>\<open>json()\<close> is handled like a transport error, so \<open>success = False\<close> whatever the
    expected status.
\<close>

theorem test_api_endpoint_outcomes:
  "(http_get e (base_url s @ endpoint) = Raise msg \<longrightarrow>
      test_api_endpoint e s endpoint expected_status =
        \<lparr>success = False, status_code = None, data = PyNone, error = Some msg\<rparr>) \<and>
   (http_get e (base_url s @ endpoint) = Respond r \<and> resp_status r \<noteq> 200 \<longrightarrow>
      test_api_endpoint e s endpoint expected_status =
        \<lparr>success = (resp_status r = expected_status), status_code = Some (resp_status r),
         data = PyNone, error = None\<rparr>) \<and>
   (http_get e (base_url s @ endpoint) = Respond r \<and> resp_status r = 200 \<and>
    resp_json r = Inr body \<longrightarrow>
      test_api_endpoint e s endpoint expected_status =
        \<lparr>success = (resp_status r = expected_status), status_code = Some (resp_status r),
         data = body, error = None\<rparr>) \<and>
   (http_get e (base_url s @ endpoint) = Respond r \<and> resp_status r = 200 \<and>
    resp_json r = Inl msg \<longrightarrow>
      test_api_endpoint e s endpoint expected_status =
        \<lparr>success = False, status_code = None, data = PyNone, error = Some msg\<rparr>)"
  by (simp add: test_api_endpoint_def)

text \<open>The four outcomes of C1 on mock servers: no server, status 500, JSON, a page.\<close>

theorem test_api_endpoint_outcomes_witness:
  "test_api_endpoint (mock_env srv_down) fresh ''/api/market/alerts'' 200 =
     \<lparr>success = False, status_code = None, data = PyNone,
      error = Some ''Connection refused''\<rparr> \<and>
   test_api_endpoint (mock_env (srv_with ''/api/market/alerts'' server_error)) fresh
       ''/api/market/alerts'' 200 =
     \<lparr>success = False, status_code = Some 500, data = PyNone, error = None\<rparr> \<and>
   test_api_endpoint (mock_env (srv_with ''/api/market/alerts'' server_error)) fresh
       ''/api/market/alerts'' 500 =
     \<lparr>success = True, status_code = Some 500, data = PyNone, error = None\<rparr> \<and>
   test_api_endpoint (mock_env srv_healthy) fresh ''/api/market/alerts'' 200 =
     \<lparr>success = True, status_code = Some 200, data = PyDict [(''ok'', PyBool True)],
      error = None\<rparr> \<and>
   test_api_endpoint (mock_env srv_pages) fresh ''/api/market/alerts'' 200 =
     \<lparr>success = False, status_code = None, data = PyNone,
      error = Some ''Expecting value: line 1 column 1 (char 0)''\<rparr>"
  using
    test_api_endpoint_outcomes [of "mock_env srv_down" fresh "''/api/market/alerts''"
      "''Connection refused''" 200]
    test_api_endpoint_outcomes [of "mock_env (srv_with ''/api/market/alerts'' server_error)"
      fresh "''/api/market/alerts''" _ 200
      "\<lparr>resp_status = 500, resp_json = Inl ''Expecting value: line 1 column 1 (char 0)''\<rparr>"]
    test_api_endpoint_outcomes [of "mock_env (srv_with ''/api/market/alerts'' server_error)"
      fresh "''/api/market/alerts''" _ 500
      "\<lparr>resp_status = 500, resp_json = Inl ''Expecting value: line 1 column 1 (char 0)''\<rparr>"]
    test_api_endpoint_outcomes [of "mock_env srv_healthy" fresh "''/api/market/alerts''" _
      200 "\<lparr>resp_status = 200, resp_json = Inr (PyDict [(''ok'', PyBool True)])\<rparr>"
      "PyDict [(''ok'', PyBool True)]"]
    test_api_endpoint_outcomes [of "mock_env srv_pages" fresh "''/api/market/alerts''"
      "''Expecting value: line 1 column 1 (char 0)''" 200
      "\<lparr>resp_status = 200, resp_json = Inl ''Expecting value: line 1 column 1 (char 0)''\<rparr>"]
  by (simp add: mock_simps srv_down_def srv_pages_def)

text \<open>
  C1 as worded fails: a response arrives with status 200, the expected status is 200, and
  \<open>success\<close> is \<open>False\<close>, because the body is not JSON.
\<close>

theorem test_api_endpoint_page_counterexample:
  "http_get (mock_env srv_pages) (base_url fresh @ ''/'') =
     Respond \<lparr>resp_status = 200,
              resp_json = Inl ''Expecting value: line 1 column 1 (char 0)''\<rparr> \<and>
   success (test_api_endpoint (mock_env srv_pages) fresh ''/'' 200) = False \<and>
   status_code (test_api_endpoint (mock_env srv_pages) fresh ''/'' 200) = None"
  by (simp add: test_api_endpoint_def mock_env_def srv_pages_def not_json_def)

section \<open>The orchestrator catches what a category raises\<close>

text \<open>
  Claim C2. For any list of routines under distinct names (so for any behaviour of the six
  categories), the loop of \<^verbatim>\<open>run_comprehensive_validation\<close> computes what
  \<^const>\<open>all_categories\<close> specifies: every category is run, in order, on the validator
  the previous one left; a category that raises is recorded as \<^verbatim>\<open>False\<close> with one
  failing entry that carries the exception's text (\<^const>\<open>catch_category\<close>); the report
  has one result per category; and \<open>overall_success\<close> is the conjunction of the truth
  values of all the results.
\<close>

theorem run_validation_catches:
  assumes "distinct (map fst ts)"
  shows "results (fst (run_validation e ts s)) =
           zip (map fst ts)
             (fst (all_categories e ts (s\<lparr>clock_reads := Suc (clock_reads s)\<rparr>))) \<and>
         length (results (fst (run_validation e ts s))) = length ts \<and>
         overall_success (fst (run_validation e ts s)) =
           list_all truthy
             (fst (all_categories e ts (s\<lparr>clock_reads := Suc (clock_reads s)\<rparr>))) \<and>
         test_details (fst (run_validation e ts s)) =
           test_results
             (snd (all_categories e ts (s\<lparr>clock_reads := Suc (clock_reads s)\<rparr>)))"
  using run_tests_refines [OF assms, of "[]" e True "s\<lparr>clock_reads := Suc (clock_reads s)\<rparr>"]
  by (simp add: run_validation_def Let_def final_report_def length_all_categories)

text \<open>
  C2 on a run in which the third category raises (the metrics body is \<^verbatim>\<open>null\<close>): the
  three categories after it still run, the exception is logged once, the run fails.
\<close>

theorem run_validation_catches_witness:
  "results (fst (run_comprehensive_validation
      (mock_env (srv_with ''/api/kaizen/metrics'' (json_ok PyNone))) fresh)) =
     [(''Dashboard Modules'', PyBool True), (''Watson Command Engine'', PyBool True),
      (''KaizenGPT Agent'', PyBool False), (''Infinity Sovereign'', PyBool True),
      (''Market Intelligence'', PyBool True), (''UI Readiness'', PyBool True)] \<and>
   overall_success (fst (run_comprehensive_validation
      (mock_env (srv_with ''/api/kaizen/metrics'' (json_ok PyNone))) fresh)) = False \<and>
   map (\<lambda>r. (passed r, details r))
     (filter (\<lambda>r. test r = ''KaizenGPT Agent Exception'')
        (test_details (fst (run_comprehensive_validation
           (mock_env (srv_with ''/api/kaizen/metrics'' (json_ok PyNone))) fresh)))) =
     [(PyBool False,
       [CHR 0x27] @ ''NoneType'' @ [CHR 0x27] @ '' object has no attribute ''
         @ [CHR 0x27] @ ''get'' @ [CHR 0x27])]"
proof -
  let ?e = "mock_env (srv_with ''/api/kaizen/metrics'' (json_ok PyNone))"
  have ev: "all_categories ?e (tests ?e) (fresh\<lparr>clock_reads := Suc (clock_reads fresh)\<rparr>) =
      ([PyBool True, PyBool True, PyBool False, PyBool True, PyBool True, PyBool True],
       snd (all_categories ?e (tests ?e) (fresh\<lparr>clock_reads := Suc (clock_reads fresh)\<rparr>)))"
    by (simp add: tests_def catch_category_def routine_defs mock_simps Let_def)
  have lg: "map (\<lambda>r. (passed r, details r))
     (filter (\<lambda>r. test r = ''KaizenGPT Agent Exception'')
        (test_results (snd (all_categories ?e (tests ?e)
           (fresh\<lparr>clock_reads := Suc (clock_reads fresh)\<rparr>))))) =
     [(PyBool False,
       [CHR 0x27] @ ''NoneType'' @ [CHR 0x27] @ '' object has no attribute ''
         @ [CHR 0x27] @ ''get'' @ [CHR 0x27])]"
    by (simp add: tests_def catch_category_def routine_defs mock_simps Let_def)
  have nm: "map fst (tests ?e) =
     [''Dashboard Modules'', ''Watson Command Engine'', ''KaizenGPT Agent'',
      ''Infinity Sovereign'', ''Market Intelligence'', ''UI Readiness'']"
    by (simp add: tests_def)
  have fs: "fst (all_categories ?e (tests ?e) (fresh\<lparr>clock_reads := Suc (clock_reads fresh)\<rparr>)) =
      [PyBool True, PyBool True, PyBool False, PyBool True, PyBool True, PyBool True]"
    using ev by (metis fst_conv)
  show ?thesis
    using run_validation_catches [OF distinct_tests, of ?e ?e fresh]
    unfolding run_comprehensive_validation_def
    by (simp only: fs nm lg) simp
qed

section \<open>The module sweep\<close>

text \<open>
  Claim C3, as the code has it. \<^const>\<open>validate_dashboard_modules\<close> returns \<^verbatim>\<open>True\<close>
  exactly when at least 12 of the 14 module paths succeed, and 12 is the ceiling of
  \<open>0.8 \<times> 14\<close>. A path succeeds exactly when the server answers it with status 200 and a
  body that parses as JSON.
\<close>

theorem validate_dashboard_modules_threshold:
  "fst (validate_dashboard_modules e s) =
     Inr (PyBool (12 \<le> length (filter (json_200 e s) modules))) \<and>
   length modules = 14 \<and> nat \<lceil>(8 / 10 :: rat) * 14\<rceil> = 12 \<and>
   success (test_api_endpoint e s m 200) = json_200 e s m"
proof -
  have h: "fst (modules_loop e modules 0 s) = length (filter (json_200 e s) modules)"
    by (simp add: modules_loop_count success_200 cong: filter_cong)
  have a: "fst (validate_dashboard_modules e s) =
     Inr (PyBool (12 \<le> length (filter (json_200 e s) modules)))"
    unfolding validate_dashboard_modules_def Let_def split_beta
    by (simp only: fst_conv h rate_threshold)
  have "\<lceil>(8 / 10 :: rat) * 14\<rceil> = 12" by (rule ceiling_unique; simp)
  then have c: "nat \<lceil>(8 / 10 :: rat) * 14\<rceil> = 12" by simp
  show ?thesis using a c by (simp add: length_modules success_200)
qed

text \<open>C3 on a server that answers everything with JSON, and with no server.\<close>

theorem validate_dashboard_modules_threshold_witness:
  "fst (validate_dashboard_modules (mock_env srv_healthy) fresh) = Inr (PyBool True) \<and>
   fst (validate_dashboard_modules (mock_env srv_down) fresh) = Inr (PyBool False)"
  using validate_dashboard_modules_threshold [of "mock_env srv_healthy" fresh]
    validate_dashboard_modules_threshold [of "mock_env srv_down" fresh]
  by (simp add: json_200_def mock_env_def srv_healthy_def json_ok_def srv_down_def)

text \<open>
  C3 as worded fails: the server answers all 14 paths with status 200, and the sweep
  returns \<^verbatim>\<open>False\<close>, because no body is JSON.
\<close>

theorem validate_dashboard_modules_page_counterexample:
  "length (filter (responds_200 (mock_env srv_pages) fresh) modules) = 14 \<and>
   fst (validate_dashboard_modules (mock_env srv_pages) fresh) = Inr (PyBool False)"
proof -
  have "fst (validate_dashboard_modules (mock_env srv_pages) fresh) =
     Inr (PyBool (12 \<le> length (filter (json_200 (mock_env srv_pages) fresh) modules)))"
    unfolding validate_dashboard_modules_def Let_def split_beta
    by (simp only: fst_conv modules_loop_count success_200 rate_threshold add_0)
  then show ?thesis
    by (simp add: json_200_def responds_200_def mock_env_def srv_pages_def not_json_def
          length_modules)
qed

section \<open>The command-engine check\<close>

text \<open>
  Claim C4, as the code has it. Let the state endpoint succeed with a JSON object in which
  \<^verbatim>\<open>isMemoryAware\<close> is a boolean or absent and \<^verbatim>\<open>fingerprintLock\<close> is a string or
  absent. Then \<^const>\<open>validate_watson_command_engine\<close> returns \<^verbatim>\<open>True\<close> when all four
  conditions hold and \<^verbatim>\<open>False\<close> when any of them fails: the flag is \<^verbatim>\<open>true\<close>, the
  fingerprint contains one of the two accepted literals, the visual-state endpoint and the
  history endpoint each answer with status 200 and a body that parses as JSON.
\<close>

theorem watson_four_conditions:
  assumes "http_get e (base_url s @ ''/api/watson/state'') = json_ok (PyDict kvs)"
    and "map_of kvs ''isMemoryAware'' = map_option PyBool mem"
    and "map_of kvs ''fingerprintLock'' = map_option PyStr fp"
  shows "fst (validate_watson_command_engine e s) =
      Inr (PyBool (mem = Some True \<and>
                   accepted_fingerprint s (case fp of Some t \<Rightarrow> t | None \<Rightarrow> []) \<and>
                   json_200 e s ''/api/watson/visual-state'' \<and>
                   json_200 e s ''/api/watson/history''))"
  using assms by (rule watson_typed(1))

text \<open>
  C4 on five servers: all four conditions hold; then the flag is off, the fingerprint is
  another one, the visual-state endpoint answers 500, the history request times out.
\<close>

theorem watson_four_conditions_witness:
  "fst (validate_watson_command_engine (mock_env srv_healthy) fresh) = Inr (PyBool True) \<and>
   fst (validate_watson_command_engine
          (mock_env (srv_with ''/api/watson/state''
             (json_ok (PyDict [(''isMemoryAware'', PyBool False),
                               (''fingerprintLock'', PyStr ''WATSON_COMMAND_READY'')]))))
          fresh) = Inr (PyBool False) \<and>
   fst (validate_watson_command_engine
          (mock_env (srv_with ''/api/watson/state''
             (json_ok (PyDict [(''isMemoryAware'', PyBool True),
                               (''fingerprintLock'', PyStr ''NEXUS_DEV_BUILD'')]))))
          fresh) = Inr (PyBool False) \<and>
   fst (validate_watson_command_engine
          (mock_env (srv_with ''/api/watson/visual-state'' server_error)) fresh) =
     Inr (PyBool False) \<and>
   fst (validate_watson_command_engine
          (mock_env (srv_with ''/api/watson/history'' (Raise ''Read timed out''))) fresh) =
     Inr (PyBool False)"
proof -
  let ?good = "[(''isMemoryAware'', PyBool True),
                (''fingerprintLock'', PyStr ''WATSON_COMMAND_READY'')]"
  let ?off = "[(''isMemoryAware'', PyBool False),
               (''fingerprintLock'', PyStr ''WATSON_COMMAND_READY'')]"
  let ?other = "[(''isMemoryAware'', PyBool True),
                 (''fingerprintLock'', PyStr ''NEXUS_DEV_BUILD'')]"
  have a: "fst (validate_watson_command_engine (mock_env srv_healthy) fresh) = Inr (PyBool True)"
    using watson_four_conditions [of "mock_env srv_healthy" fresh ?good "Some True"
        "Some ''WATSON_COMMAND_READY''"]
    by (simp add: mock_simps json_200_def accepted_fingerprint_def)
  have b: "fst (validate_watson_command_engine
          (mock_env (srv_with ''/api/watson/state'' (json_ok (PyDict ?off)))) fresh) =
        Inr (PyBool False)"
    using watson_four_conditions [of "mock_env (srv_with ''/api/watson/state''
        (json_ok (PyDict ?off)))" fresh ?off "Some False" "Some ''WATSON_COMMAND_READY''"]
    by (simp add: mock_simps)
  have c: "fst (validate_watson_command_engine
          (mock_env (srv_with ''/api/watson/state'' (json_ok (PyDict ?other)))) fresh) =
        Inr (PyBool False)"
    using watson_four_conditions [of "mock_env (srv_with ''/api/watson/state''
        (json_ok (PyDict ?other)))" fresh ?other "Some True" "Some ''NEXUS_DEV_BUILD''"]
    by (simp add: mock_simps accepted_fingerprint_def sublist_code prefix_code)
  have d: "fst (validate_watson_command_engine
          (mock_env (srv_with ''/api/watson/visual-state'' server_error)) fresh) =
        Inr (PyBool False)"
    using watson_four_conditions [of "mock_env (srv_with ''/api/watson/visual-state''
        server_error)" fresh ?good "Some True" "Some ''WATSON_COMMAND_READY''"]
    by (simp add: mock_simps json_200_def)
  have e: "fst (validate_watson_command_engine
          (mock_env (srv_with ''/api/watson/history'' (Raise ''Read timed out''))) fresh) =
        Inr (PyBool False)"
    using watson_four_conditions [of "mock_env (srv_with ''/api/watson/history''
        (Raise ''Read timed out''))" fresh ?good "Some True" "Some ''WATSON_COMMAND_READY''"]
    by (simp add: mock_simps json_200_def)
  show ?thesis using a b c d e by simp
qed

text \<open>
  C4 as worded fails: the state object has the flag and the fingerprint, the visual-state
  and history endpoints both answer with status 200, and the routine returns \<^verbatim>\<open>False\<close>,
  because the visual-state body is not JSON.
\<close>

theorem watson_visual_page_counterexample:
  "http_get (mock_env (srv_with ''/api/watson/visual-state'' not_json))
     (base_url fresh @ ''/api/watson/state'') =
     json_ok (PyDict [(''isMemoryAware'', PyBool True),
                      (''fingerprintLock'', PyStr ''WATSON_COMMAND_READY'')]) \<and>
   responds_200 (mock_env (srv_with ''/api/watson/visual-state'' not_json)) fresh
     ''/api/watson/visual-state'' \<and>
   responds_200 (mock_env (srv_with ''/api/watson/visual-state'' not_json)) fresh
     ''/api/watson/history'' \<and>
   fst (validate_watson_command_engine
          (mock_env (srv_with ''/api/watson/visual-state'' not_json)) fresh) =
     Inr (PyBool False)"
  by (simp add: validate_watson_command_engine_def Let_def test_api_endpoint_def mock_simps
        responds_200_def py_and_def)

section \<open>The optimization-agent check\<close>

text \<open>
  Claim C5. When the metrics endpoint succeeds with a JSON object that has
  \<^verbatim>\<open>isActive = true\<close>, \<^verbatim>\<open>optimizationCycles = 5\<close> and an integer
  \<^verbatim>\<open>currentEfficiency\<close>, \<^const>\<open>validate_kaizen_agent\<close> returns whether the efficiency is
  strictly greater than 90: \<^verbatim>\<open>True\<close> for 95 and \<^verbatim>\<open>False\<close> for 90.
\<close>

theorem kaizen_efficiency_threshold:
  assumes "http_get e (base_url s @ ''/api/kaizen/metrics'') = json_ok (PyDict kvs)"
    and "map_of kvs ''isActive'' = Some (PyBool True)"
    and "map_of kvs ''optimizationCycles'' = Some (PyInt 5)"
    and "map_of kvs ''currentEfficiency'' = Some (PyInt efficiency)"
  shows "fst (validate_kaizen_agent e s) = Inr (PyBool (90 < efficiency)) \<and>
         (efficiency = 95 \<longrightarrow> fst (validate_kaizen_agent e s) = Inr (PyBool True)) \<and>
         (efficiency = 90 \<longrightarrow> fst (validate_kaizen_agent e s) = Inr (PyBool False))"
  using kaizen_typed(1) [OF assms(1), of "Some True" "Some 5" "Some efficiency"] assms(2-4)
  by simp

text \<open>C5 on the two metrics bodies of the claim.\<close>

theorem kaizen_efficiency_threshold_witness:
  "fst (validate_kaizen_agent (mock_env srv_healthy) fresh) = Inr (PyBool True) \<and>
   fst (validate_kaizen_agent
          (mock_env (srv_with ''/api/kaizen/metrics'' (json_ok (kaizen_body 90)))) fresh) =
     Inr (PyBool False)"
proof -
  have a: "fst (validate_kaizen_agent (mock_env srv_healthy) fresh) = Inr (PyBool True)"
    using kaizen_efficiency_threshold [of "mock_env srv_healthy" fresh
        "[(''isActive'', PyBool True), (''optimizationCycles'', PyInt 5),
          (''currentEfficiency'', PyInt 95)]" 95]
    by (simp add: mock_simps)
  have b: "fst (validate_kaizen_agent
          (mock_env (srv_with ''/api/kaizen/metrics'' (json_ok (kaizen_body 90)))) fresh) =
        Inr (PyBool False)"
    using kaizen_efficiency_threshold [of
        "mock_env (srv_with ''/api/kaizen/metrics'' (json_ok (kaizen_body 90)))" fresh
        "[(''isActive'', PyBool True), (''optimizationCycles'', PyInt 5),
          (''currentEfficiency'', PyInt 90)]" 90]
    by (simp add: mock_simps)
  show ?thesis using a b by simp
qed

section \<open>The market-intelligence check\<close>

text \<open>
  Claim C6 on a server whose summary endpoint delivers data and whose alerts endpoint
  answers 500. The routine logs the alerts sub-check as failed and returns \<^verbatim>\<open>True\<close>:
  the \<^verbatim>\<open>return\<close> inside the \<^verbatim>\<open>if\<close> leaves out \<^verbatim>\<open>alerts_accessible\<close>, which the
  \<^verbatim>\<open>return\<close> at the end of the routine includes.
\<close>

theorem market_alerts_failure_ignored:
  "success (test_api_endpoint (mock_env (srv_with ''/api/market/alerts'' server_error)) fresh
      ''/api/market/alerts'' 200) = False \<and>
   fst (validate_market_intelligence
          (mock_env (srv_with ''/api/market/alerts'' server_error)) fresh) = Inr (PyBool True) \<and>
   logged_since fresh
     (snd (validate_market_intelligence
             (mock_env (srv_with ''/api/market/alerts'' server_error)) fresh)) =
     [(''Market Summary Access'', PyBool True),
      (''Market Alerts Access'', PyBool False),
      (''Market Data Collection'', PyBool True),
      (''Market Data Sources'', PyBool True)]"
  by (simp add: validate_market_intelligence_def Let_def test_api_endpoint_def mock_simps
        logged_since_def)

section \<open>Reading fields of a body\<close>




section \<open>The report\<close>

text \<open>
  Claim C8, as the code has it. For every list of logged entries, \<open>passed_tests\<close> is the
  number of entries whose \<open>passed\<close> value is true in Python's sense (the code tests
  \<^verbatim>\<open>if r["passed"]\<close>); when every entry holds a boolean, that is the number of entries
  with \<open>passed = True\<close>. \<open>total_tests\<close> is the number of entries. \<open>success_rate\<close> is the
  double-precision value of \<^verbatim>\<open>(passed_tests / total_tests) * 100\<close>: the quotient rounded
  to the nearest double, times 100, rounded again; it is a finite float within
  \<open>1 / 2 ^ 45\<close> of the exact value, and it is the integer 0 when there is no entry. The
  same counts and the same rate hold of the report that a run returns, with respect to its
  \<open>test_details\<close>.
\<close>

theorem report_counters:
  "passed_tests (final_report ov res dur s) =
     length (filter (\<lambda>r. truthy (passed r)) (test_results s)) \<and>
   ((\<forall>r \<in> set (test_results s). passed r = PyBool True \<or> passed r = PyBool False) \<longrightarrow>
      passed_tests (final_report ov res dur s) =
        length (filter (\<lambda>r. passed r = PyBool True) (test_results s))) \<and>
   total_tests (final_report ov res dur s) = length (test_results s) \<and>
   success_rate (final_report ov res dur s) =
     (if total_tests (final_report ov res dur s) = 0 then PyInt 0
      else PyFloat (float_mul
             (to_double (of_nat (passed_tests (final_report ov res dur s)) /
                         of_nat (total_tests (final_report ov res dur s))))
             (Finite 100))) \<and>
   (0 < total_tests (final_report ov res dur s) \<longrightarrow>
      (\<exists>x. success_rate (final_report ov res dur s) = PyFloat (Finite x) \<and>
           \<bar>x - of_nat (passed_tests (final_report ov res dur s)) /
                  of_nat (total_tests (final_report ov res dur s)) * 100\<bar> \<le> 1 / 2 ^ 45)) \<and>
   test_details (final_report ov res dur s) = test_results s \<and>
   passed_tests (fst (run_comprehensive_validation e s)) =
     length (filter (\<lambda>r. truthy (passed r))
               (test_details (fst (run_comprehensive_validation e s)))) \<and>
   total_tests (fst (run_comprehensive_validation e s)) =
     length (test_details (fst (run_comprehensive_validation e s))) \<and>
   success_rate (fst (run_comprehensive_validation e s)) =
     (if total_tests (fst (run_comprehensive_validation e s)) = 0 then PyInt 0
      else PyFloat (float_mul
             (to_double (of_nat (passed_tests (fst (run_comprehensive_validation e s))) /
                         of_nat (total_tests (fst (run_comprehensive_validation e s)))))
             (Finite 100)))"
proof -
  have b: "(\<forall>r \<in> set xs. passed r = PyBool True \<or> passed r = PyBool False) \<Longrightarrow>
      filter (\<lambda>r. truthy (passed r)) xs = filter (\<lambda>r. passed r = PyBool True) xs"
    for xs :: "test_result list"
    by (rule filter_cong) auto
  have c: "0 < length xs \<Longrightarrow>
      \<exists>x. float_mul (int_truediv (length (filter (\<lambda>r. truthy (passed r)) xs)) (length xs))
             (Finite 100) = Finite x \<and>
          \<bar>x - of_nat (length (filter (\<lambda>r. truthy (passed r)) xs)) / of_nat (length xs) * 100\<bar>
            \<le> 1 / 2 ^ 45"
    for xs :: "test_result list"
    by (rule rate_near) simp_all
  show ?thesis
    unfolding run_comprehensive_validation_def fst_run_validation
    using c [of "test_results s"]
    by (auto simp add: final_report_def Let_def b int_truediv_def simp del: float_mul.simps)
qed

text \<open>
  C8 on a log of one passed and one failed entry (rate 50.0) and on the empty log (rate 0).
\<close>

theorem report_counters_witness:
  "passed_tests (final_report True [] 0
      (log_test (mock_env srv_down) ''second'' (PyBool False) []
         (log_test (mock_env srv_down) ''first'' (PyBool True) [] fresh))) = 1 \<and>
   total_tests (final_report True [] 0
      (log_test (mock_env srv_down) ''second'' (PyBool False) []
         (log_test (mock_env srv_down) ''first'' (PyBool True) [] fresh))) = 2 \<and>
   success_rate (final_report True [] 0
      (log_test (mock_env srv_down) ''second'' (PyBool False) []
         (log_test (mock_env srv_down) ''first'' (PyBool True) [] fresh))) =
     PyFloat (Finite 50) \<and>
   total_tests (final_report True [] 0 fresh) = 0 \<and>
   success_rate (final_report True [] 0 fresh) = PyInt 0"
proof -
  have q: "to_double (1 / 2) = Finite (1 / 2)"
    using quotient_1_2 by (simp add: int_truediv_def)
  show ?thesis
    using
      report_counters [of True "[]" 0
        "log_test (mock_env srv_down) ''second'' (PyBool False) []
           (log_test (mock_env srv_down) ''first'' (PyBool True) [] fresh)"
        "mock_env srv_down"]
      report_counters [of True "[]" 0 fresh "mock_env srv_down"]
    by (simp add: q product_50 del: float_mul.simps)
qed

text \<open>
  C8 as worded fails in two ways. With 14 passed entries of 25 the exact value of
  \<open>passed_tests / total_tests * 100\<close> is 56, and the rate of the report is the double
  above it (printed \<^verbatim>\<open>56.00000000000001\<close>). And when the state endpoint reports
  \<^verbatim>\<open>isMemoryAware = "yes"\<close>, the entry of that sub-check holds the string, which is
  counted as passed and is not \<open>passed = True\<close>: four entries are counted, three hold
  \<^verbatim>\<open>True\<close>.
\<close>

theorem report_counters_counterexample:
  "passed_tests (final_report True [] 0
      ((log_test (mock_env srv_down) ''check'' (PyBool False) [] ^^ 11)
         ((log_test (mock_env srv_down) ''check'' (PyBool True) [] ^^ 14) fresh))) = 14 \<and>
   total_tests (final_report True [] 0
      ((log_test (mock_env srv_down) ''check'' (PyBool False) [] ^^ 11)
         ((log_test (mock_env srv_down) ''check'' (PyBool True) [] ^^ 14) fresh))) = 25 \<and>
   success_rate (final_report True [] 0
      ((log_test (mock_env srv_down) ''check'' (PyBool False) [] ^^ 11)
         ((log_test (mock_env srv_down) ''check'' (PyBool True) [] ^^ 14) fresh))) =
     PyFloat (Finite (7881299347898369 / 2 ^ 47)) \<and>
   (7881299347898369 / 2 ^ 47 :: rat) \<noteq> 14 / 25 * 100 \<and>
   passed_tests (final_report True [] 0
      (snd (validate_watson_command_engine
              (mock_env (srv_with ''/api/watson/state''
                 (json_ok (PyDict [(''isMemoryAware'', PyStr ''yes''),
                                   (''fingerprintLock'', PyStr ''WATSON_COMMAND_READY'')]))))
              fresh))) = 4 \<and>
   length (filter (\<lambda>r. passed r = PyBool True)
      (test_results (snd (validate_watson_command_engine
              (mock_env (srv_with ''/api/watson/state''
                 (json_ok (PyDict [(''isMemoryAware'', PyStr ''yes''),
                                   (''fingerprintLock'', PyStr ''WATSON_COMMAND_READY'')]))))
              fresh)))) = 3"
proof -
  let ?s = "(log_test (mock_env srv_down) ''check'' (PyBool False) [] ^^ 11)
         ((log_test (mock_env srv_down) ''check'' (PyBool True) [] ^^ 14) fresh)"
  have n: "length (test_results ?s) = 25"
    by (simp only: log_many_counts fresh_fields list.size)
  have p: "length (filter (\<lambda>r. truthy (passed r)) (test_results ?s)) = 14"
    by (simp only: log_many_counts fresh_fields filter.simps list.size truthy.simps if_True
          if_False add_0 add_0_right)
  have a: "passed_tests (final_report True [] 0 ?s) = 14 \<and>
           total_tests (final_report True [] 0 ?s) = 25 \<and>
           success_rate (final_report True [] 0 ?s) =
             PyFloat (Finite (7881299347898369 / 2 ^ 47))"
    by (simp add: final_report_def Let_def n p rate_14_25 del: float_mul.simps)
  have r: "(7881299347898369 / 2 ^ 47 :: rat) \<noteq> 14 / 25 * 100" by simp
  let ?w = "snd (validate_watson_command_engine
              (mock_env (srv_with ''/api/watson/state''
                 (json_ok (PyDict [(''isMemoryAware'', PyStr ''yes''),
                                   (''fingerprintLock'', PyStr ''WATSON_COMMAND_READY'')]))))
              fresh)"
  have w: "map passed (test_results ?w) =
      [PyStr ''yes'', PyBool True, PyBool True, PyBool True]"
    by (simp add: validate_watson_command_engine_def Let_def test_api_endpoint_def mock_simps)
  have c: "length (filter (\<lambda>r. truthy (passed r)) (test_results ?w)) =
           length (filter truthy (map passed (test_results ?w)))"
    by (simp add: filter_map comp_def)
  have d: "length (filter (\<lambda>r. passed r = PyBool True) (test_results ?w)) =
           length (filter (\<lambda>v. v = PyBool True) (map passed (test_results ?w)))"
    by (simp add: filter_map comp_def)
  have b: "passed_tests (final_report True [] 0 ?w) = 4"
    by (simp add: final_report_def Let_def c w)
  have b': "length (filter (\<lambda>r. passed r = PyBool True) (test_results ?w)) = 3"
    by (simp add: d w)
  show ?thesis using a r b b' by simp
qed

section \<open>Two runs against the same server\<close>



section \<open>The UI-readiness check\<close>

text \<open>
  Claim C10, as the code has it. \<^const>\<open>validate_ui_readiness\<close> logs two sub-checks, the
  second of which (the WebSocket configuration) always passes, and it returns \<^verbatim>\<open>True\<close>
  exactly when the GET of the root path is answered with status 200 and a body that parses
  as JSON.
\<close>

theorem validate_ui_readiness_result:
  "fst (validate_ui_readiness e s) = Inr (PyBool (json_200 e s ''/'')) \<and>
   logged_since s (snd (validate_ui_readiness e s)) =
     [(''Dashboard UI Access'', PyBool (json_200 e s ''/'')),
      (''WebSocket Configuration'', PyBool True)]"
  by (simp add: validate_ui_readiness_def Let_def success_200 logged_since_def)

text \<open>C10 on the healthy server and with no server.\<close>

theorem validate_ui_readiness_result_witness:
  "fst (validate_ui_readiness (mock_env srv_healthy) fresh) = Inr (PyBool True) \<and>
   fst (validate_ui_readiness (mock_env srv_down) fresh) = Inr (PyBool False)"
  using validate_ui_readiness_result [of "mock_env srv_healthy" fresh]
        validate_ui_readiness_result [of "mock_env srv_down" fresh]
  by (simp add: json_200_def mock_env_def srv_healthy_def json_ok_def srv_down_def)

text \<open>
  C10 as worded fails: the root path is answered with status 200 and the routine returns
  \<^verbatim>\<open>False\<close>, because the body is a page and not JSON.
\<close>

theorem validate_ui_readiness_page_counterexample:
  "responds_200 (mock_env srv_pages) fresh ''/'' \<and>
   fst (validate_ui_readiness (mock_env srv_pages) fresh) = Inr (PyBool False)"
  by (simp add: validate_ui_readiness_def Let_def test_api_endpoint_def responds_200_def
        mock_env_def srv_pages_def not_json_def)

end
